theory Spec2Isabelle
  imports Complex_Main
begin

section \<open>The segbot equations-of-motion notebook\<close>

text \<open>
  The notebook \<^verbatim>\<open>ae353_segbot-EoM.ipynb\<close> is a straight-line script of five code cells:
  imports, numeric constants, symbol declarations, the derivation of \<open>f\<close>, and the display
  of \<open>f\<close>. This theory embeds cells 2 to 4.

  Modelling decisions, fixed here once:
  \<^item> Python floats are read as the real numbers their decimal literals denote, and float
    arithmetic as exact real arithmetic. Rounding is not modelled.
  \<^item> A SymPy expression over the declared symbols is represented by its value under an
    assignment of reals to symbols (a \<open>valuation\<close>); a SymPy matrix is the list of its rows.
  \<^item> Every way in which the interpreter or the library can raise during cell 4 is a value
    of type \<open>error\<close>: division by a zero float, a shape mismatch, a non-square or a singular
    matrix passed to \<open>inv\<close>.
\<close>

subsection \<open>Cell 2: constants of the system\<close>

record constants =
  m_c :: real
  ixx_c :: real
  iyy_c :: real
  izz_c :: real
  m_w :: real
  iaa_w :: real
  itt_w :: real
  r_w :: real
  m :: real
  ixx :: real
  iyy :: real
  izz :: real
  h :: real
  a :: real
  r_station :: real
  v_station :: real

text \<open>
  The global names bound by cell 2. The two station literals are the arguments, so that the
  cell can be rerun with other values of them; the notebook's own run is \<open>cell2 20.0 (-0.1)\<close>.
\<close>

definition cell2 :: "real \<Rightarrow> real \<Rightarrow> constants" where
  "cell2 r_station_lit v_station_lit =
    (let m_c = 12.0;
         ixx_c = 1.0;
         iyy_c = 0.8;
         izz_c = 0.52;
         m_w = 1.2;
         iaa_w = 0.0634;
         itt_w = 0.0327;
         r_w = 0.325;
         m = m_c + 2 * m_w;
         ixx = ixx_c + 2 * itt_w;
         iyy = iyy_c;
         izz = izz_c + 2 * itt_w;
         h = 0.2;
         a = 0.35;
         r_station = r_station_lit;
         v_station = v_station_lit
     in \<lparr>m_c = m_c, ixx_c = ixx_c, iyy_c = iyy_c, izz_c = izz_c,
         m_w = m_w, iaa_w = iaa_w, itt_w = itt_w, r_w = r_w,
         m = m, ixx = ixx, iyy = iyy, izz = izz, h = h, a = a,
         r_station = r_station, v_station = v_station\<rparr>)"

definition notebook_constants :: constants where
  "notebook_constants = cell2 20.0 (- 0.1)"

subsection \<open>Cell 3: symbols\<close>

datatype symbol = Symbol string

definition e_lat :: symbol where "e_lat = Symbol ''e_lat''"
definition phi :: symbol where "phi = Symbol ''phi''"
definition phidot :: symbol where "phidot = Symbol ''phidot''"
definition v :: symbol where "v = Symbol ''v''"
definition theta :: symbol where "theta = Symbol ''theta''"
definition thetadot :: symbol where "thetadot = Symbol ''thetadot''"
definition tau_l :: symbol where "tau_l = Symbol ''tau_l''"
definition tau_r :: symbol where "tau_r = Symbol ''tau_r''"

type_synonym valuation = "symbol \<Rightarrow> real"

subsection \<open>Matrices and the library operations cell 4 calls\<close>

type_synonym matrix = "real list list"

datatype error =
  ZeroDivisionError | ShapeError | NonSquareMatrixError | NonInvertibleMatrixError

definition and_then :: "error + 'a \<Rightarrow> ('a \<Rightarrow> error + 'b) \<Rightarrow> error + 'b" where
  "and_then x g = (case x of Inl e \<Rightarrow> Inl e | Inr y \<Rightarrow> g y)"

definition cols :: "matrix \<Rightarrow> nat" where
  "cols A = (case A of [] \<Rightarrow> 0 | r # _ \<Rightarrow> length r)"

definition mat_add :: "matrix \<Rightarrow> matrix \<Rightarrow> error + matrix" where
  "mat_add A B =
    (if length A = length B \<and> cols A = cols B then Inr (map2 (map2 (+)) A B)
     else Inl ShapeError)"

definition mat_mul :: "matrix \<Rightarrow> matrix \<Rightarrow> error + matrix" where
  "mat_mul A B =
    (if cols A = length B
     then Inr (map (\<lambda>r. map (\<lambda>c. sum_list (map2 (*) r c)) (transpose B)) A)
     else Inl ShapeError)"

text \<open>\<open>Matrix([[x], [B]])\<close>: a block column, the rows of the second block under the first.\<close>

definition vstack :: "matrix \<Rightarrow> matrix \<Rightarrow> error + matrix" where
  "vstack A B = (if cols A = cols B then Inr (A @ B) else Inl ShapeError)"

definition del :: "nat \<Rightarrow> 'a list \<Rightarrow> 'a list" where
  "del j xs = take j xs @ drop (Suc j) xs"

text \<open>The determinant, by expansion along the first row.\<close>

function det :: "matrix \<Rightarrow> real" where
  "det [] = 1"
| "det (r # rs) = (\<Sum>j\<leftarrow>[0..<length r]. (- 1) ^ j * r ! j * det (map (del j) rs))"
  by pat_completeness auto
termination
  by (relation "measure length") auto

definition minor :: "matrix \<Rightarrow> nat \<Rightarrow> nat \<Rightarrow> matrix" where
  "minor A i j = map (del j) (del i A)"

definition adjugate :: "matrix \<Rightarrow> matrix" where
  "adjugate A =
    map (\<lambda>i. map (\<lambda>j. (- 1) ^ (i + j) * det (minor A j i)) [0..<length A]) [0..<length A]"

definition is_square :: "matrix \<Rightarrow> bool" where
  "is_square A = list_all (\<lambda>r. length r = length A) A"

text \<open>
  \<open>A.inv()\<close>: the library raises on a non-square matrix and on a singular one; otherwise
  the result is the inverse, here the adjugate over the determinant in exact arithmetic.
  The library eliminates on floats, so its product with \<open>A\<close> is the identity up to rounding
  only; nothing below states that product.
\<close>

definition inv_mat :: "matrix \<Rightarrow> error + matrix" where
  "inv_mat A =
    (if \<not> is_square A then Inl NonSquareMatrixError
     else if det A = 0 then Inl NonInvertibleMatrixError
     else Inr (map (map (\<lambda>x. x / det A)) (adjugate A)))"

text \<open>
  \<open>simplify\<close> rewrites an expression into one that is equal in exact arithmetic. An
  expression is represented by its value, so the rewriting is invisible here; the regrouping
  of float coefficients, which moves their last digits, is not modelled.
\<close>

definition simplify :: "'a \<Rightarrow> 'a" where
  "simplify e = e"

subsection \<open>Cell 4: the derivation\<close>

definition M :: "constants \<Rightarrow> valuation \<Rightarrow> error + matrix" where
  "M c \<rho> =
    (if (r_w c)\<^sup>2 = 0 then Inl ZeroDivisionError
     else Inr
      [[m c + 2 * iaa_w c / (r_w c)\<^sup>2, 0, m_c c * h c * cos (\<rho> theta)],
       [0, (ixx c + m_c c * (h c)\<^sup>2) * (sin (\<rho> theta))\<^sup>2 + izz c * (cos (\<rho> theta))\<^sup>2
            + (2 * iaa_w c * (a c)\<^sup>2 / (r_w c)\<^sup>2) + 2 * m_w c * (a c)\<^sup>2, 0],
       [m_c c * h c * cos (\<rho> theta), 0, iyy c * m_c c * (h c)\<^sup>2]])"

definition N :: "constants \<Rightarrow> valuation \<Rightarrow> matrix" where
  "N c \<rho> =
    [[m_c c * h c * ((\<rho> phidot)\<^sup>2 + (\<rho> thetadot)\<^sup>2) * sin (\<rho> theta)],
     [- 2 * (ixx c - izz c + m c * (h c)\<^sup>2) * cos (\<rho> theta) * sin (\<rho> theta) * \<rho> phidot * \<rho> thetadot
        - m_c c * h c * sin (\<rho> theta) * \<rho> v * \<rho> phidot],
     [(ixx c - izz c + m_c c * (h c)\<^sup>2) * cos (\<rho> theta) * sin (\<rho> theta) * (\<rho> phidot)\<^sup>2
        + m_c c * 9.81 * h c * sin (\<rho> theta)]]"

definition R :: "constants \<Rightarrow> error + matrix" where
  "R c =
    (if r_w c = 0 then Inl ZeroDivisionError
     else Inr
      [[1 / r_w c, 1 / r_w c],
       [- a c / r_w c, a c / r_w c],
       [- 1, - 1]])"

definition f_partial :: "constants \<Rightarrow> valuation \<Rightarrow> error + matrix" where
  "f_partial c \<rho> =
    and_then (M c \<rho>) (\<lambda>mass.
    and_then (R c) (\<lambda>inp.
    and_then (inv_mat mass) (\<lambda>mass_inv.
    and_then (mat_mul inp [[\<rho> tau_l], [\<rho> tau_r]]) (\<lambda>torque.
    and_then (mat_add (N c \<rho>) torque) (\<lambda>rhs.
    and_then (mat_mul mass_inv rhs) (\<lambda>g. Inr (simplify g)))))))"

definition f :: "constants \<Rightarrow> valuation \<Rightarrow> error + matrix" where
  "f c \<rho> =
    and_then (f_partial c \<rho>) (\<lambda>g.
    and_then (vstack [[\<rho> v * sin (\<rho> phi)]] g) (\<lambda>stacked. Inr (simplify stacked)))"

subsection \<open>Quantities of the notebook's run\<close>

text \<open>
  Two quantities of the mass matrix at the notebook's constants, as functions of the pitch
  \<open>t\<close>: the middle diagonal entry of \<open>M\<close>, and the determinant of the block of \<open>M\<close> on rows
  and columns 0 and 2. Lemmas \<open>M_nb_entries\<close> and \<open>det_M_nb\<close> below tie them to \<open>M\<close>.
\<close>

definition yaw_inertia :: "real \<Rightarrow> real" where
  "yaw_inertia t = 7727 / 5000 * (sin t)\<^sup>2 + 2927 / 5000 * (cos t)\<^sup>2 + 186347 / 422500"

definition coupling :: "real \<Rightarrow> real" where
  "coupling t = 65912 / 4225 * (48 / 125) - (12 / 5 * cos t) * (12 / 5 * cos t)"

text \<open>The quadratic form \<open>x\<^sup>T A x\<close> of a square matrix, used to state positive definiteness.\<close>

definition quad_form :: "matrix \<Rightarrow> real list \<Rightarrow> real" where
  "quad_form A x = sum_list (map2 (*) x (map (\<lambda>r. sum_list (map2 (*) r x)) A))"

text \<open>
  A symbol \<open>s\<close> matters to an expression \<open>F\<close> when changing the value of \<open>s\<close> alone can change
  the value of \<open>F\<close>. A symbol that matters to \<open>F\<close> occurs in every expression equal to \<open>F\<close>;
  a symbol that the notebook never writes into \<open>F\<close> does not matter to it.
\<close>

definition depends_on :: "(valuation \<Rightarrow> 'a) \<Rightarrow> symbol \<Rightarrow> bool" where
  "depends_on F s = (\<exists>\<rho> r. F (\<rho>(s := r)) \<noteq> F \<rho>)"

section \<open>Evaluating the library operations on the notebook's shapes\<close>

lemma upt3: "[0..<3] = [0, Suc 0, 2]" by (simp add: upt_rec)
lemma upt2: "[0..<2] = [0, Suc 0]" by (simp add: upt_rec)

lemma del_simps [simp]: "del 0 (x # xs) = xs" "del (Suc n) (x # xs) = x # del n xs" "del n [] = []"
  by (simp_all add: del_def)

lemma det3: "det [[a11, a12, a13], [a21, a22, a23], [a31, a32, a33]] =
   a11 * (a22 * a33 - a23 * a32) - a12 * (a21 * a33 - a23 * a31) + a13 * (a21 * a32 - a22 * a31)"
  by (simp add: upt3 upt2 numeral_2_eq_2 algebra_simps)

lemma adj3: "adjugate [[a11, a12, a13], [a21, a22, a23], [a31, a32, a33]] =
  [[a22 * a33 - a23 * a32, a13 * a32 - a12 * a33, a12 * a23 - a13 * a22],
   [a23 * a31 - a21 * a33, a11 * a33 - a13 * a31, a13 * a21 - a11 * a23],
   [a21 * a32 - a22 * a31, a12 * a31 - a11 * a32, a11 * a22 - a12 * a21]]"
  by (simp add: adjugate_def minor_def upt3 upt2 numeral_2_eq_2 algebra_simps)

lemma square3: "is_square [[a11, a12, a13], [a21, a22, a23], [a31, a32, a33]]"
  by (simp add: is_square_def)

lemma mat_mul_3x3_3x1:
  "mat_mul [[a11, a12, a13], [a21, a22, a23], [a31, a32, a33]] [[b1], [b2], [b3]] =
   Inr [[a11 * b1 + a12 * b2 + a13 * b3], [a21 * b1 + a22 * b2 + a23 * b3],
        [a31 * b1 + a32 * b2 + a33 * b3]]"
  by (simp add: mat_mul_def cols_def)

lemma mat_mul_3x2_2x1:
  "mat_mul [[a11, a12], [a21, a22], [a31, a32]] [[b1], [b2]] =
   Inr [[a11 * b1 + a12 * b2], [a21 * b1 + a22 * b2], [a31 * b1 + a32 * b2]]"
  by (simp add: mat_mul_def cols_def)

lemma mat_add_3x1:
  "mat_add [[a1], [a2], [a3]] [[b1], [b2], [b3]] = Inr [[a1 + b1], [a2 + b2], [a3 + b3]]"
  by (simp add: mat_add_def cols_def)

section \<open>The matrices at the notebook's constants\<close>

lemma nb_simps:
  "m_c notebook_constants = 12" "m_w notebook_constants = 6 / 5"
  "iaa_w notebook_constants = 317 / 5000" "r_w notebook_constants = 13 / 40"
  "m notebook_constants = 72 / 5" "ixx notebook_constants = 5327 / 5000"
  "iyy notebook_constants = 4 / 5" "izz notebook_constants = 2927 / 5000"
  "h notebook_constants = 1 / 5" "a notebook_constants = 7 / 20"
  by (simp_all add: notebook_constants_def cell2_def Let_def)

lemma M_nb:
  "M notebook_constants \<rho> =
    Inr [[65912 / 4225, 0, 12 / 5 * cos (\<rho> theta)],
         [0, 7727 / 5000 * (sin (\<rho> theta))\<^sup>2 + 2927 / 5000 * (cos (\<rho> theta))\<^sup>2
             + 186347 / 422500, 0],
         [12 / 5 * cos (\<rho> theta), 0, 48 / 125]]"
  by (simp add: M_def nb_simps power2_eq_square)

lemma N_nb:
  "N notebook_constants \<rho> =
    [[12 / 5 * ((\<rho> phidot)\<^sup>2 + (\<rho> thetadot)\<^sup>2) * sin (\<rho> theta)],
     [- (264 / 125) * cos (\<rho> theta) * sin (\<rho> theta) * \<rho> phidot * \<rho> thetadot
        - 12 / 5 * sin (\<rho> theta) * \<rho> v * \<rho> phidot],
     [24 / 25 * cos (\<rho> theta) * sin (\<rho> theta) * (\<rho> phidot)\<^sup>2
        + 2943 / 125 * sin (\<rho> theta)]]"
  by (simp add: N_def nb_simps power2_eq_square)

lemma R_nb:
  "R notebook_constants = Inr [[40 / 13, 40 / 13], [- (14 / 13), 14 / 13], [- 1, - 1]]"
  by (simp add: R_def nb_simps)

section \<open>Invertibility of the mass matrix\<close>

lemma sin_cos_sq: "(sin t)\<^sup>2 + (cos t)\<^sup>2 = (1::real)" by simp

lemma cos_sq_le_1: "(cos (t::real))\<^sup>2 \<le> 1"
  using sin_cos_sq [of t] zero_le_power2 [of "sin t"] by linarith

lemma yaw_inertia_pos:
  "0 < 7727 / 5000 * (sin (t::real))\<^sup>2 + 2927 / 5000 * (cos t)\<^sup>2 + 186347 / 422500"
  using zero_le_power2 [of "sin t"] zero_le_power2 [of "cos t"] by linarith

lemma coupling_pos: "0 < 65912 / 4225 * (48 / 125) - (12 / 5 * cos (t::real)) * (12 / 5 * cos t)"
  using cos_sq_le_1 [of t] by (simp add: power2_eq_square)

text \<open>
  The mass matrix has zeros off the cross pattern; for such a matrix the inverse has the same
  pattern, and the derivation has the closed form below.
\<close>

lemma inv_sparse:
  assumes "D \<noteq> 0" "\<Delta> \<noteq> 0" and \<Delta>: "A * E - b * b = \<Delta>"
  shows "inv_mat [[A, 0, b], [0, D, 0], [b, 0, E]] =
    Inr [[E / \<Delta>, 0, - b / \<Delta>], [0, 1 / D, 0], [- b / \<Delta>, 0, A / \<Delta>]]"
proof -
  have d: "det [[A, 0, b], [0, D, 0], [b, 0, E]] = D * \<Delta>"
    by (simp add: det3 \<Delta> [symmetric] algebra_simps)
  have e: "(D * E) / (D * \<Delta>) = E / \<Delta>" "(D * A) / (D * \<Delta>) = A / \<Delta>"
    "(D * b) / (D * \<Delta>) = b / \<Delta>" "(A * E - b * b) / (D * \<Delta>) = 1 / D"
    using assms by simp_all
  show ?thesis
    using assms(1,2) by (simp add: inv_mat_def square3 d adj3 e mult.commute del: det.simps)
qed

lemma f_partial_sparse:
  assumes mass: "M c \<rho> = Inr [[A, 0, b], [0, D, 0], [b, 0, E]]"
    and inp: "R c = Inr [[r11, r12], [r21, r22], [r31, r32]]"
    and cor: "N c \<rho> = [[n1], [n2], [n3]]"
    and nz: "D \<noteq> 0" "\<Delta> \<noteq> 0" and \<Delta>: "A * E - b * b = \<Delta>"
  shows "f_partial c \<rho> =
    Inr [[(E * (n1 + (r11 * \<rho> tau_l + r12 * \<rho> tau_r))
            - b * (n3 + (r31 * \<rho> tau_l + r32 * \<rho> tau_r))) / \<Delta>],
         [(n2 + (r21 * \<rho> tau_l + r22 * \<rho> tau_r)) / D],
         [(A * (n3 + (r31 * \<rho> tau_l + r32 * \<rho> tau_r))
            - b * (n1 + (r11 * \<rho> tau_l + r12 * \<rho> tau_r))) / \<Delta>]]"
  by (simp add: f_partial_def and_then_def mass inp cor inv_sparse [OF nz \<Delta>] mat_mul_3x2_2x1
      mat_add_3x1 mat_mul_3x3_3x1 simplify_def diff_divide_distrib)

lemma f_sparse:
  assumes "f_partial c \<rho> = Inr [[g1], [g2], [g3]]"
  shows "f c \<rho> = Inr [[\<rho> v * sin (\<rho> phi)], [g1], [g2], [g3]]"
  by (simp add: f_def assms and_then_def vstack_def cols_def simplify_def)

section \<open>The closed form of the derivation\<close>

lemma yaw_inertia_gt0: "0 < yaw_inertia t"
  unfolding yaw_inertia_def by (rule yaw_inertia_pos)

lemma coupling_gt0: "0 < coupling t"
  unfolding coupling_def by (rule coupling_pos)

lemma f_partial_nb:
  assumes cor: "N notebook_constants \<rho> = [[n1], [n2], [n3]]"
  shows "f_partial notebook_constants \<rho> =
    Inr [[(48 / 125 * (n1 + (40 / 13 * \<rho> tau_l + 40 / 13 * \<rho> tau_r))
            - 12 / 5 * cos (\<rho> theta) * (n3 + (- 1 * \<rho> tau_l + - 1 * \<rho> tau_r)))
          / coupling (\<rho> theta)],
         [(n2 + (- (14 / 13) * \<rho> tau_l + 14 / 13 * \<rho> tau_r)) / yaw_inertia (\<rho> theta)],
         [(65912 / 4225 * (n3 + (- 1 * \<rho> tau_l + - 1 * \<rho> tau_r))
            - 12 / 5 * cos (\<rho> theta) * (n1 + (40 / 13 * \<rho> tau_l + 40 / 13 * \<rho> tau_r)))
          / coupling (\<rho> theta)]]"
proof (rule f_partial_sparse [OF _ R_nb cor])
  show "M notebook_constants \<rho> =
    Inr [[65912 / 4225, 0, 12 / 5 * cos (\<rho> theta)], [0, yaw_inertia (\<rho> theta), 0],
         [12 / 5 * cos (\<rho> theta), 0, 48 / 125]]"
    by (simp only: M_nb yaw_inertia_def)
  show "yaw_inertia (\<rho> theta) \<noteq> 0" using yaw_inertia_gt0 [of "\<rho> theta"] by simp
  show "coupling (\<rho> theta) \<noteq> 0" using coupling_gt0 [of "\<rho> theta"] by simp
  show "65912 / 4225 * (48 / 125) - 12 / 5 * cos (\<rho> theta) * (12 / 5 * cos (\<rho> theta)) =
    coupling (\<rho> theta)"
    by (simp only: coupling_def)
qed

lemma f_nb_ok: "\<exists>g1 g2 g3. f notebook_constants \<rho> = Inr [[\<rho> v * sin (\<rho> phi)], [g1], [g2], [g3]]"
  using f_sparse [OF f_partial_nb [OF N_nb]] by blast

lemmas f_nb = f_sparse [OF f_partial_nb [OF N_nb]]

lemma det_M_nb:
  "det [[65912 / 4225, 0, 12 / 5 * cos t], [0, yaw_inertia t, 0], [12 / 5 * cos t, 0, 48 / 125]]
    = yaw_inertia t * coupling t"
  by (simp add: det3 coupling_def algebra_simps)

lemma M_nb_entries: "M notebook_constants \<rho> =
    Inr [[65912 / 4225, 0, 12 / 5 * cos (\<rho> theta)], [0, yaw_inertia (\<rho> theta), 0],
         [12 / 5 * cos (\<rho> theta), 0, 48 / 125]]"
  by (simp only: M_nb yaw_inertia_def)

lemmas symbol_defs =
  e_lat_def phi_def phidot_def v_def theta_def thetadot_def tau_l_def tau_r_def

section \<open>C2: the symbols that matter to the result\<close>

lemma f_ignores:
  assumes "s \<noteq> v" "s \<noteq> phi" "s \<noteq> phidot" "s \<noteq> theta" "s \<noteq> thetadot" "s \<noteq> tau_l" "s \<noteq> tau_r"
  shows "f c (\<rho>(s := r)) = f c \<rho>"
  using assms by (simp add: f_def f_partial_def M_def N_def)

lemma f_ignores_e_lat: "f c (\<rho>(e_lat := r)) = f c \<rho>"
  by (rule f_ignores) (simp_all add: symbol_defs)

lemma dep_v: "depends_on (f notebook_constants) v"
proof -
  have "f notebook_constants (((\<lambda>_. 0)(phi := pi / 2))(v := 1)) \<noteq>
        f notebook_constants ((\<lambda>_. 0)(phi := pi / 2))"
    by (simp add: f_nb symbol_defs)
  then show ?thesis unfolding depends_on_def by blast
qed

lemma dep_phi: "depends_on (f notebook_constants) phi"
proof -
  have "f notebook_constants (((\<lambda>_. 0)(v := 1))(phi := pi / 2)) \<noteq>
        f notebook_constants ((\<lambda>_. 0)(v := 1))"
    by (simp add: f_nb symbol_defs)
  then show ?thesis unfolding depends_on_def by blast
qed

lemma dep_theta: "depends_on (f notebook_constants) theta"
proof -
  have "f notebook_constants ((\<lambda>_. 0)(theta := pi / 2)) \<noteq> f notebook_constants (\<lambda>_. 0)"
    by (simp add: f_nb symbol_defs coupling_def yaw_inertia_def)
  then show ?thesis unfolding depends_on_def by blast
qed

lemma dep_phidot: "depends_on (f notebook_constants) phidot"
proof -
  have "f notebook_constants (((\<lambda>_. 0)(theta := pi / 2))(phidot := 1)) \<noteq>
        f notebook_constants ((\<lambda>_. 0)(theta := pi / 2))"
    by (simp add: f_nb symbol_defs coupling_def yaw_inertia_def)
  then show ?thesis unfolding depends_on_def by blast
qed

lemma dep_thetadot: "depends_on (f notebook_constants) thetadot"
proof -
  have "f notebook_constants (((\<lambda>_. 0)(theta := pi / 2))(thetadot := 1)) \<noteq>
        f notebook_constants ((\<lambda>_. 0)(theta := pi / 2))"
    by (simp add: f_nb symbol_defs coupling_def yaw_inertia_def)
  then show ?thesis unfolding depends_on_def by blast
qed

lemma dep_tau_l: "depends_on (f notebook_constants) tau_l"
proof -
  have "f notebook_constants ((\<lambda>_. 0)(tau_l := 1)) \<noteq> f notebook_constants (\<lambda>_. 0)"
    by (simp add: f_nb symbol_defs coupling_def yaw_inertia_def)
  then show ?thesis unfolding depends_on_def by blast
qed

lemma dep_tau_r: "depends_on (f notebook_constants) tau_r"
proof -
  have "f notebook_constants ((\<lambda>_. 0)(tau_r := 1)) \<noteq> f notebook_constants (\<lambda>_. 0)"
    by (simp add: f_nb symbol_defs coupling_def yaw_inertia_def)
  then show ?thesis unfolding depends_on_def by blast
qed

text \<open>
  Claim C2 as written says that each of the eight declared symbols occurs in \<open>f\<close>. The
  symbol \<open>e_lat\<close> does not: cell 4 never writes it into \<open>M\<close>, \<open>N\<close>, \<open>R\<close> or \<open>f\<close>, and the value of
  \<open>f\<close> is the same under every change of \<open>e_lat\<close>.
\<close>

theorem e_lat_not_free_in_f: "\<not> depends_on (f notebook_constants) e_lat"
  unfolding depends_on_def by (simp add: f_ignores_e_lat)

text \<open>
  Claim C2, amended. A symbol matters to \<open>f\<close> exactly when it is one of the seven symbols \<open>v\<close>,
  \<open>phi\<close>, \<open>phidot\<close>, \<open>theta\<close>, \<open>thetadot\<close>, \<open>tau_l\<close>, \<open>tau_r\<close>. The declared symbol \<open>e_lat\<close> is not
  among them, and neither is any symbol the notebook does not declare.
\<close>

theorem f_depends_on_exactly_seven_symbols:
  "depends_on (f notebook_constants) s
     \<longleftrightarrow> s \<in> set [v, phi, phidot, theta, thetadot, tau_l, tau_r]"
proof
  assume dep: "depends_on (f notebook_constants) s"
  show "s \<in> set [v, phi, phidot, theta, thetadot, tau_l, tau_r]"
  proof (rule ccontr)
    assume "s \<notin> set [v, phi, phidot, theta, thetadot, tau_l, tau_r]"
    then have "f notebook_constants (\<rho>(s := r)) = f notebook_constants \<rho>" for \<rho> r
      by (intro f_ignores) simp_all
    with dep show False unfolding depends_on_def by blast
  qed
next
  assume "s \<in> set [v, phi, phidot, theta, thetadot, tau_l, tau_r]"
  then show "depends_on (f notebook_constants) s"
    using dep_v dep_phi dep_phidot dep_theta dep_thetadot dep_tau_l dep_tau_r by auto
qed

section \<open>C3: the derivation never raises\<close>

text \<open>
  Claim C3. For every real value of \<open>theta\<close> the determinant of \<open>M\<close> is nonzero, so \<open>M.inv()\<close>
  returns; the determinant is the positive middle diagonal entry times
  \<open>(m + 2*iaa_w/r_w**2)*(iyy*m_c*h**2) - (m_c*h*cos(theta))**2\<close>, which never vanishes;
  and neither \<open>f_partial\<close> nor \<open>f\<close> is an error, whatever the assignment.
\<close>

theorem derivation_never_raises:
  "(\<exists>mass mass_inv. M notebook_constants \<rho> = Inr mass \<and> det mass \<noteq> 0
      \<and> inv_mat mass = Inr mass_inv
      \<and> 0 < mass ! 1 ! 1
      \<and> det mass = mass ! 1 ! 1 *
          ((m notebook_constants + 2 * iaa_w notebook_constants / (r_w notebook_constants)\<^sup>2)
           * (iyy notebook_constants * m_c notebook_constants * (h notebook_constants)\<^sup>2)
           - (m_c notebook_constants * h notebook_constants * cos (\<rho> theta))\<^sup>2))
   \<and> (m notebook_constants + 2 * iaa_w notebook_constants / (r_w notebook_constants)\<^sup>2)
       * (iyy notebook_constants * m_c notebook_constants * (h notebook_constants)\<^sup>2)
       - (m_c notebook_constants * h notebook_constants * cos (\<rho> theta))\<^sup>2 \<noteq> 0
   \<and> (\<exists>g. f_partial notebook_constants \<rho> = Inr g)
   \<and> (\<exists>F. f notebook_constants \<rho> = Inr F)"
proof (intro conjI)
  have D: "yaw_inertia (\<rho> theta) \<noteq> 0" using yaw_inertia_gt0 [of "\<rho> theta"] by simp
  have C: "coupling (\<rho> theta) \<noteq> 0" using coupling_gt0 [of "\<rho> theta"] by simp
  have "det [[65912 / 4225, 0, 12 / 5 * cos (\<rho> theta)], [0, yaw_inertia (\<rho> theta), 0],
         [12 / 5 * cos (\<rho> theta), 0, 48 / 125]] \<noteq> 0"
    using D C by (simp only: det_M_nb) simp
  moreover have "\<exists>mi. inv_mat [[65912 / 4225, 0, 12 / 5 * cos (\<rho> theta)], [0, yaw_inertia (\<rho> theta), 0],
         [12 / 5 * cos (\<rho> theta), 0, 48 / 125]] = Inr mi"
    using inv_sparse [OF D C] by (simp only: coupling_def) blast
  moreover have "det [[65912 / 4225, 0, 12 / 5 * cos (\<rho> theta)], [0, yaw_inertia (\<rho> theta), 0],
         [12 / 5 * cos (\<rho> theta), 0, 48 / 125]] =
       [[65912 / 4225, 0, 12 / 5 * cos (\<rho> theta)], [0, yaw_inertia (\<rho> theta), 0],
         [12 / 5 * cos (\<rho> theta), 0, 48 / 125]] ! 1 ! 1 *
          ((m notebook_constants + 2 * iaa_w notebook_constants / (r_w notebook_constants)\<^sup>2)
           * (iyy notebook_constants * m_c notebook_constants * (h notebook_constants)\<^sup>2)
           - (m_c notebook_constants * h notebook_constants * cos (\<rho> theta))\<^sup>2)"
    by (simp only: det_M_nb) (simp add: nb_simps coupling_def power2_eq_square)
  moreover have "0 < [[65912 / 4225, 0, 12 / 5 * cos (\<rho> theta)], [0, yaw_inertia (\<rho> theta), 0],
         [12 / 5 * cos (\<rho> theta), 0, 48 / 125]] ! 1 ! 1"
    using yaw_inertia_gt0 [of "\<rho> theta"] by simp
  ultimately show "\<exists>mass mass_inv. M notebook_constants \<rho> = Inr mass \<and> det mass \<noteq> 0
      \<and> inv_mat mass = Inr mass_inv
      \<and> 0 < mass ! 1 ! 1
      \<and> det mass = mass ! 1 ! 1 *
          ((m notebook_constants + 2 * iaa_w notebook_constants / (r_w notebook_constants)\<^sup>2)
           * (iyy notebook_constants * m_c notebook_constants * (h notebook_constants)\<^sup>2)
           - (m_c notebook_constants * h notebook_constants * cos (\<rho> theta))\<^sup>2)"
    using M_nb_entries [of \<rho>] by blast
  show "(m notebook_constants + 2 * iaa_w notebook_constants / (r_w notebook_constants)\<^sup>2)
       * (iyy notebook_constants * m_c notebook_constants * (h notebook_constants)\<^sup>2)
       - (m_c notebook_constants * h notebook_constants * cos (\<rho> theta))\<^sup>2 \<noteq> 0"
    using coupling_pos [of "\<rho> theta"] by (simp add: nb_simps power2_eq_square)
  show "\<exists>g. f_partial notebook_constants \<rho> = Inr g"
    using f_partial_nb [OF N_nb] by blast
  show "\<exists>F. f notebook_constants \<rho> = Inr F"
    using f_nb_ok [of \<rho>] by blast
qed

section \<open>C4: the mass matrix is symmetric and positive definite\<close>

lemma quad_form_3:
  "quad_form [[a11, a12, a13], [a21, a22, a23], [a31, a32, a33]] [x1, x2, x3] =
     x1 * (a11 * x1 + a12 * x2 + a13 * x3) + x2 * (a21 * x1 + a22 * x2 + a23 * x3)
       + x3 * (a31 * x1 + a32 * x2 + a33 * x3)"
  by (simp add: quad_form_def algebra_simps)

lemma sparse_pos_def:
  fixes A b D E x1 x2 x3 :: real
  assumes "0 < A" "0 < D" "0 < A * E - b * b" "x1 \<noteq> 0 \<or> x2 \<noteq> 0 \<or> x3 \<noteq> 0"
  shows "0 < x1 * (A * x1 + 0 * x2 + b * x3) + x2 * (0 * x1 + D * x2 + 0 * x3)
       + x3 * (b * x1 + 0 * x2 + E * x3)"
proof -
  let ?q = "x1 * (A * x1 + 0 * x2 + b * x3) + x2 * (0 * x1 + D * x2 + 0 * x3)
       + x3 * (b * x1 + 0 * x2 + E * x3)"
  have eq: "A * ?q = (A * x1 + b * x3)\<^sup>2 + (A * E - b * b) * x3\<^sup>2 + A * D * x2\<^sup>2"
    by (simp add: power2_eq_square algebra_simps)
  have t1: "0 \<le> (A * x1 + b * x3)\<^sup>2" by simp
  have t2: "0 \<le> (A * E - b * b) * x3\<^sup>2" using assms(3) by simp
  have t3: "0 \<le> A * D * x2\<^sup>2" using assms(1,2) by simp
  have "0 < (A * x1 + b * x3)\<^sup>2 + (A * E - b * b) * x3\<^sup>2 + A * D * x2\<^sup>2"
  proof (cases "x3 = 0")
    case False
    then have "0 < (A * E - b * b) * x3\<^sup>2" using assms(3) by simp
    then show ?thesis using t1 t3 by linarith
  next
    case x3: True
    show ?thesis
    proof (cases "x2 = 0")
      case False
      then have "0 < A * D * x2\<^sup>2" using assms(1,2) by simp
      then show ?thesis using t1 t2 by linarith
    next
      case True
      then have "x1 \<noteq> 0" using assms(4) x3 by simp
      then have "0 < (A * x1 + b * x3)\<^sup>2" using assms(1) x3 by simp
      then show ?thesis using t2 t3 by linarith
    qed
  qed
  then have "0 < A * ?q" by (simp only: eq)
  then show ?thesis using assms(1) by (simp only: zero_less_mult_iff) linarith
qed

text \<open>
  Claim C4. For every real value of \<open>theta\<close> the matrix \<open>M\<close> equals its transpose, its entries
  \<open>M[0,0]\<close> and \<open>M[1,1]\<close> and its determinant are positive, and its quadratic form is positive
  at every vector other than zero.
\<close>

theorem mass_matrix_symmetric_positive_definite:
  "\<exists>mass. M notebook_constants \<rho> = Inr mass
     \<and> transpose mass = mass
     \<and> 0 < mass ! 0 ! 0 \<and> 0 < mass ! 1 ! 1 \<and> 0 < det mass
     \<and> (\<forall>x1 x2 x3. x1 \<noteq> 0 \<or> x2 \<noteq> 0 \<or> x3 \<noteq> 0 \<longrightarrow> 0 < quad_form mass [x1, x2, x3])"
proof -
  let ?mass = "[[65912 / 4225, 0, 12 / 5 * cos (\<rho> theta)], [0, yaw_inertia (\<rho> theta), 0],
         [12 / 5 * cos (\<rho> theta), 0, 48 / 125]]"
  have D: "0 < yaw_inertia (\<rho> theta)" by (rule yaw_inertia_gt0)
  have C: "0 < coupling (\<rho> theta)" by (rule coupling_gt0)
  have C': "0 < 65912 / 4225 * (48 / 125) - 12 / 5 * cos (\<rho> theta) * (12 / 5 * cos (\<rho> theta))"
    using C by (simp only: coupling_def)
  have "transpose ?mass = ?mass" by simp
  moreover have "0 < ?mass ! 0 ! 0" by simp
  moreover have "0 < ?mass ! 1 ! 1" using D by simp
  moreover have "0 < det ?mass" using D C by (simp only: det_M_nb) simp
  moreover have "\<forall>x1 x2 x3. x1 \<noteq> 0 \<or> x2 \<noteq> 0 \<or> x3 \<noteq> 0 \<longrightarrow> 0 < quad_form ?mass [x1, x2, x3]"
  proof (intro allI impI)
    fix x1 x2 x3 :: real
    assume nz: "x1 \<noteq> 0 \<or> x2 \<noteq> 0 \<or> x3 \<noteq> 0"
    have A: "(0::real) < 65912 / 4225" by simp
    show "0 < quad_form ?mass [x1, x2, x3]"
      unfolding quad_form_3 by (rule sparse_pos_def [OF A D C' nz])
  qed
  ultimately show ?thesis using M_nb_entries [of \<rho>] by blast
qed

text \<open>Claim C4 at the assignment of zero to every symbol and the first unit vector.\<close>

theorem mass_matrix_symmetric_positive_definite_witness:
  "\<exists>mass. M notebook_constants (\<lambda>_. 0) = Inr mass
     \<and> transpose mass = mass
     \<and> 0 < mass ! 0 ! 0 \<and> 0 < mass ! 1 ! 1 \<and> 0 < det mass
     \<and> (1::real) \<noteq> 0 \<and> 0 < quad_form mass [1, 0, 0]"
proof -
  obtain mass where mass: "M notebook_constants (\<lambda>_. 0) = Inr mass"
      "transpose mass = mass" "0 < mass ! 0 ! 0" "0 < mass ! 1 ! 1" "0 < det mass"
    and q: "\<forall>x1 x2 x3. x1 \<noteq> 0 \<or> x2 \<noteq> 0 \<or> x3 \<noteq> 0 \<longrightarrow> 0 < quad_form mass [x1, x2, x3]"
    using mass_matrix_symmetric_positive_definite [of "\<lambda>_. 0"] by blast
  have "0 < quad_form mass [1, 0, 0]" using q by simp
  with mass show ?thesis by simp
qed

section \<open>C5: the torques enter affinely, through their sum and their difference\<close>

lemma M_ignores_torques: "M c (\<rho>(tau_l := x, tau_r := y)) = M c \<rho>"
  by (simp add: M_def symbol_defs)

lemma N_ignores_torques: "N c (\<rho>(tau_l := x, tau_r := y)) = N c \<rho>"
  by (simp add: N_def symbol_defs)

text \<open>
  Claim C5. With every symbol but the torques held fixed, each entry of \<open>f\<close> is a constant
  plus a constant multiple of the torques: the first entry has no torque term, the second
  and the fourth are affine in \<open>tau_l + tau_r\<close>, and the third is affine in \<open>tau_r - tau_l\<close>.
  Swapping the two torques leaves the first, second and fourth entries unchanged.
\<close>

theorem f_affine_in_torques:
  "(\<exists>a2 b2 a3 b3 a4 b4. \<forall>x y.
     f notebook_constants (\<rho>(tau_l := x, tau_r := y)) =
       Inr [[\<rho> v * sin (\<rho> phi)],
            [a2 + b2 * (x + y)],
            [a3 + b3 * (y - x)],
            [a4 + b4 * (x + y)]])
   \<and> (\<exists>e1 e2 e3 e3' e4.
     f notebook_constants (\<rho>(tau_l := x, tau_r := y)) = Inr [[e1], [e2], [e3], [e4]]
     \<and> f notebook_constants (\<rho>(tau_l := y, tau_r := x)) = Inr [[e1], [e2], [e3'], [e4]])"
proof -
  obtain n1 n2 n3 where cor: "N notebook_constants \<rho> = [[n1], [n2], [n3]]"
    using N_nb [of \<rho>] by blast
  define c where "c = 12 / 5 * cos (\<rho> theta)"
  define \<Delta> where "\<Delta> = coupling (\<rho> theta)"
  define D where "D = yaw_inertia (\<rho> theta)"
  have nz: "\<Delta> \<noteq> 0" "D \<noteq> 0"
    using coupling_gt0 [of "\<rho> theta"] yaw_inertia_gt0 [of "\<rho> theta"] by (simp_all add: \<Delta>_def D_def)
  have "f notebook_constants (\<rho>(tau_l := x, tau_r := y)) =
       Inr [[\<rho> v * sin (\<rho> phi)],
            [(48 / 125 * n1 - c * n3) / \<Delta> + (48 / 125 * (40 / 13) + c) / \<Delta> * (x + y)],
            [n2 / D + 14 / 13 / D * (y - x)],
            [(65912 / 4225 * n3 - c * n1) / \<Delta> + (- (65912 / 4225) - c * (40 / 13)) / \<Delta> * (x + y)]]"
    for x y
  proof -
    let ?\<rho> = "\<rho>(tau_l := x, tau_r := y)"
    have cor': "N notebook_constants ?\<rho> = [[n1], [n2], [n3]]"
      by (simp only: N_ignores_torques cor)
    have val: "?\<rho> tau_l = x" "?\<rho> tau_r = y" "?\<rho> theta = \<rho> theta" "?\<rho> v = \<rho> v" "?\<rho> phi = \<rho> phi"
      by (simp_all add: symbol_defs)
    have e1: "(48 / 125 * (n1 + (40 / 13 * x + 40 / 13 * y)) - c * (n3 + (- 1 * x + - 1 * y))) / \<Delta>
        = (48 / 125 * n1 - c * n3) / \<Delta> + (48 / 125 * (40 / 13) + c) / \<Delta> * (x + y)"
      using nz(1) by (simp add: field_simps)
    have e2: "(n2 + (- (14 / 13) * x + 14 / 13 * y)) / D = n2 / D + 14 / 13 / D * (y - x)"
      using nz(2) by (simp add: field_simps)
    have e3: "(65912 / 4225 * (n3 + (- 1 * x + - 1 * y)) - c * (n1 + (40 / 13 * x + 40 / 13 * y))) / \<Delta>
        = (65912 / 4225 * n3 - c * n1) / \<Delta> + (- (65912 / 4225) - c * (40 / 13)) / \<Delta> * (x + y)"
      using nz(1) by (simp add: field_simps)
    show ?thesis
      unfolding f_sparse [OF f_partial_nb [OF cor']] val
      unfolding c_def [symmetric] \<Delta>_def [symmetric] D_def [symmetric]
      by (simp only: e1 e2 e3)
  qed
  then have form: "\<exists>a2 b2 a3 b3 a4 b4. \<forall>x y.
     f notebook_constants (\<rho>(tau_l := x, tau_r := y)) =
       Inr [[\<rho> v * sin (\<rho> phi)],
            [a2 + b2 * (x + y)],
            [a3 + b3 * (y - x)],
            [a4 + b4 * (x + y)]]"
    by blast
  then obtain a2 b2 a3 b3 a4 b4 where at: "\<And>x y.
     f notebook_constants (\<rho>(tau_l := x, tau_r := y)) =
       Inr [[\<rho> v * sin (\<rho> phi)],
            [a2 + b2 * (x + y)],
            [a3 + b3 * (y - x)],
            [a4 + b4 * (x + y)]]"
    by blast
  have "f notebook_constants (\<rho>(tau_l := y, tau_r := x)) =
       Inr [[\<rho> v * sin (\<rho> phi)], [a2 + b2 * (x + y)], [a3 + b3 * (x - y)], [a4 + b4 * (x + y)]]"
    using at [of y x] by (simp add: add.commute)
  with at [of x y] have "\<exists>e1 e2 e3 e3' e4.
     f notebook_constants (\<rho>(tau_l := x, tau_r := y)) = Inr [[e1], [e2], [e3], [e4]]
     \<and> f notebook_constants (\<rho>(tau_l := y, tau_r := x)) = Inr [[e1], [e2], [e3'], [e4]]"
    by blast
  with form show ?thesis by blast
qed

section \<open>C6: upright rest with zero torques is an equilibrium\<close>

text \<open>
  Claim C6. Substituting \<open>theta = 0\<close>, \<open>phidot = 0\<close>, \<open>thetadot = 0\<close>, \<open>tau_l = 0\<close> and
  \<open>tau_r = 0\<close> into \<open>f\<close> leaves \<open>v * sin(phi)\<close> in the first entry and zero in the other three,
  for every value of the remaining symbols.
\<close>

theorem rest_is_equilibrium:
  "f notebook_constants (\<rho>(theta := 0, phidot := 0, thetadot := 0, tau_l := 0, tau_r := 0)) =
     Inr [[\<rho> v * sin (\<rho> phi)], [0], [0], [0]]"
  by (simp add: f_nb symbol_defs)

section \<open>C7: the station parameters\<close>

lemma station_unused: "f (cell2 r w) = f (cell2 r' w')"
  by (intro ext) (simp add: f_def f_partial_def M_def N_def R_def cell2_def Let_def)

lemma M_station: "M (cell2 r w) = M (cell2 r' w')"
  by (intro ext) (simp add: M_def cell2_def Let_def)

lemma N_station: "N (cell2 r w) = N (cell2 r' w')"
  by (intro ext) (simp add: N_def cell2_def Let_def)

lemma R_station: "R (cell2 r w) = R (cell2 r' w')"
  by (simp add: R_def cell2_def Let_def)

text \<open>
  Claim C7 as written says that some other value of \<open>r_station\<close> or of \<open>v_station\<close> gives a
  different \<open>f\<close>. Cell 4 reads neither name, so no value does.
\<close>

theorem station_parameters_have_influence_refuted:
  "\<not> ((\<exists>r. f (cell2 r (- 0.1)) \<noteq> f notebook_constants)
      \<or> (\<exists>w. f (cell2 20.0 w) \<noteq> f notebook_constants))"
  unfolding notebook_constants_def using station_unused by blast

text \<open>
  Claim C7, amended. Cell 2 binds \<open>r_station\<close> and \<open>v_station\<close> to the literals it is given,
  and the derivation does not depend on them: for every pair of values the matrices \<open>M\<close>, \<open>N\<close>,
  \<open>R\<close> and the result \<open>f\<close> are those of the notebook's own run.
\<close>

theorem station_parameters_unused:
  "r_station (cell2 r w) = r \<and> v_station (cell2 r w) = w
   \<and> M (cell2 r w) = M notebook_constants
   \<and> N (cell2 r w) = N notebook_constants
   \<and> R (cell2 r w) = R notebook_constants
   \<and> f (cell2 r w) = f notebook_constants"
  unfolding notebook_constants_def
  using M_station [of r w] N_station [of r w] R_station [of r w] station_unused [of r w]
  by (simp add: cell2_def Let_def)

end
